theory Spec2Isabelle
  imports Complex_Main
begin

section \<open>Host values\<close>

text \<open>
  The batch job \<^verbatim>\<open>run.py\<close> is a single function \<^verbatim>\<open>main\<close> that threads a parsed YAML
  document, a pandas data frame and a report dictionary through one
  \<^verbatim>\<open>try\<close>/\<^verbatim>\<open>except\<close> block. The embedding keeps that shape: every exception of the
  source is a value of \<open>py_error\<close>, every stage returns \<open>py_error + 'a\<close>, and the handler
  is a function of the binding of \<^verbatim>\<open>config\<close> at the moment the exception was raised.

  A value that \<^verbatim>\<open>yaml.safe_load\<close> can return: the scalars of the core schema, a
  calendar date (the one tagged scalar modelled; it stands for the values that the JSON
  encoder refuses), sequences and mappings. A mapping is the list of the items of the
  Python dictionary under its string keys, so the keys are pairwise different; an entry
  under a key that is not a string is invisible to every lookup of the source and is left
  out.
\<close>

datatype yaml =
    YNull
  | YBool bool
  | YInt int
  | YFloat real
  | YStr string
  | YDate int int int
  | YSeq "yaml list"
  | YMap "(string \<times> yaml) list"

datatype py_error =
    FileNotFoundError string
  | YAMLError string
  | ValueError string
  | TypeError string
  | KeyError string
  | AttributeError string
  | PandasError string

text \<open>\<^verbatim>\<open>str(e)\<close>: the message; for a \<^verbatim>\<open>KeyError\<close> it is the \<^verbatim>\<open>repr\<close> of the key.\<close>

fun str_of :: "py_error \<Rightarrow> string" where
  "str_of (FileNotFoundError m) = m"
| "str_of (YAMLError m) = m"
| "str_of (ValueError m) = m"
| "str_of (TypeError m) = m"
| "str_of (KeyError k) = [CHR 0x27] @ k @ [CHR 0x27]"
| "str_of (AttributeError m) = m"
| "str_of (PandasError m) = m"

fun type_name :: "yaml \<Rightarrow> string" where
  "type_name YNull = ''NoneType''"
| "type_name (YBool _) = ''bool''"
| "type_name (YInt _) = ''int''"
| "type_name (YFloat _) = ''float''"
| "type_name (YStr _) = ''str''"
| "type_name (YDate _ _ _) = ''datetime.date''"
| "type_name (YSeq _) = ''list''"
| "type_name (YMap _) = ''dict''"

text \<open>\<^verbatim>\<open>needle in hay\<close> on two strings is the substring test.\<close>

fun substring :: "string \<Rightarrow> string \<Rightarrow> bool" where
  "substring needle [] = (needle = [])"
| "substring needle (c # cs) =
     (take (length needle) (c # cs) = needle \<or> substring needle cs)"

text \<open>
  \<^verbatim>\<open>key in config\<close> for a string key: membership among the keys of a dictionary, among
  the elements of a list, as a substring of a string; any other value is not iterable.
\<close>

fun py_contains :: "yaml \<Rightarrow> string \<Rightarrow> py_error + bool" where
  "py_contains (YMap kvs) k = Inr (map_of kvs k \<noteq> None)"
| "py_contains (YSeq xs) k = Inr (YStr k \<in> set xs)"
| "py_contains (YStr s) k = Inr (substring k s)"
| "py_contains y k =
     Inl (TypeError (''argument of type '' @ [CHR 0x27] @ type_name y @ [CHR 0x27]
                     @ '' is not iterable''))"

text \<open>\<^verbatim>\<open>config[key]\<close> for a string key.\<close>

fun py_getitem :: "yaml \<Rightarrow> string \<Rightarrow> py_error + yaml" where
  "py_getitem (YMap kvs) k =
     (case map_of kvs k of None \<Rightarrow> Inl (KeyError k) | Some v \<Rightarrow> Inr v)"
| "py_getitem (YSeq xs) k =
     Inl (TypeError ''list indices must be integers or slices, not str'')"
| "py_getitem (YStr s) k = Inl (TypeError ''string indices must be integers'')"
| "py_getitem y k =
     Inl (TypeError ([CHR 0x27] @ type_name y @ [CHR 0x27] @ '' object is not subscriptable''))"

text \<open>\<^verbatim>\<open>config.get(key, default)\<close>: only a dictionary has the method.\<close>

fun py_get :: "yaml \<Rightarrow> string \<Rightarrow> yaml \<Rightarrow> py_error + yaml" where
  "py_get (YMap kvs) k d =
     (case map_of kvs k of None \<Rightarrow> Inr d | Some v \<Rightarrow> Inr v)"
| "py_get y k d =
     Inl (AttributeError ([CHR 0x27] @ type_name y @ [CHR 0x27]
                          @ '' object has no attribute '' @ [CHR 0x27] @ ''get'' @ [CHR 0x27]))"

text \<open>What \<^verbatim>\<open>json.dump\<close> can encode: every value with no date inside.\<close>

fun json_ok :: "yaml \<Rightarrow> bool" where
  "json_ok (YDate _ _ _) = False"
| "json_ok (YSeq xs) = list_all json_ok xs"
| "json_ok (YMap kvs) = list_all (\<lambda>kv. json_ok (snd kv)) kvs"
| "json_ok _ = True"

section \<open>The input repair\<close>

text \<open>
  \<^verbatim>\<open>line.strip().strip('"')\<close>. A character of a Python string is modelled by its code
  point below 256. \<^verbatim>\<open>str.strip()\<close> removes the characters for which \<^verbatim>\<open>str.isspace\<close>
  holds from both ends; \<^verbatim>\<open>str.strip(chars)\<close> removes, from both ends, every character
  that occurs in \<^verbatim>\<open>chars\<close>.
\<close>

definition isspace :: "char \<Rightarrow> bool" where
  "isspace c \<longleftrightarrow>
     c \<in> {CHR 0x09, CHR 0x0A, CHR 0x0B, CHR 0x0C, CHR 0x0D,
          CHR 0x1C, CHR 0x1D, CHR 0x1E, CHR 0x1F, CHR 0x20, CHR 0x85, CHR 0xA0}"

definition strip_chars :: "(char \<Rightarrow> bool) \<Rightarrow> string \<Rightarrow> string" where
  "strip_chars P s = rev (dropWhile P (rev (dropWhile P s)))"

definition dquote :: char where
  "dquote = CHR 0x22"

definition repair_line :: "string \<Rightarrow> string" where
  "repair_line line = strip_chars (\<lambda>c. c = dquote) (strip_chars isspace line)"

text \<open>\<^verbatim>\<open>''.join(line.strip().strip('"') + '\n' for line in raw_f)\<close>\<close>

definition cleaned :: "string list \<Rightarrow> string" where
  "cleaned raw_f = concat (map (\<lambda>line. repair_line line @ [CHR 0x0A]) raw_f)"

section \<open>Series and frames\<close>

text \<open>
  A float64 value is a real number or the not-a-number sentinel \<open>None\<close>: the arithmetic
  of the embedding is exact, so the rounding error of binary floating point and the two
  infinities are outside the model. A column that pandas parsed as numeric (int64 or
  float64) is \<open>Float64\<close>; any other column has dtype object. A frame is the list of its
  columns in order; pandas keeps every column of a frame at the same length, and
  \<^verbatim>\<open>len(df)\<close> reads it off the first.
\<close>

datatype column = Float64 "real option list" | Object "string list"

type_synonym dataframe = "(string \<times> column) list"

fun col_len :: "column \<Rightarrow> nat" where
  "col_len (Float64 xs) = length xs"
| "col_len (Object xs) = length xs"

fun df_len :: "dataframe \<Rightarrow> nat" where
  "df_len [] = 0"
| "df_len ((name, c) # cols) = col_len c"

text \<open>\<^verbatim>\<open>df.empty\<close>: some axis has length zero.\<close>

definition df_empty :: "dataframe \<Rightarrow> bool" where
  "df_empty df \<longleftrightarrow> df = [] \<or> df_len df = 0"

subsection \<open>\<^verbatim>\<open>Series.rolling(window).mean()\<close>\<close>

text \<open>
  The fixed window of row \<open>i\<close> is the slice from \<open>max 0 (i + 1 - w)\<close> up to and including
  \<open>i\<close>. With \<^verbatim>\<open>min_periods\<close> left at its default, the window size, the result of a row
  is the mean of the observations of its window that are not NaN when there are at least
  \<open>w\<close> of them and at least one, and NaN otherwise.
\<close>

definition window_at :: "nat \<Rightarrow> 'a list \<Rightarrow> nat \<Rightarrow> 'a list" where
  "window_at w xs i = take (Suc i - (Suc i - w)) (drop (Suc i - w) xs)"

definition calc_mean :: "nat \<Rightarrow> real option list \<Rightarrow> real option" where
  "calc_mean minp win =
     (let obs = List.map_filter (\<lambda>x. x) win; nobs = length obs
      in if minp \<le> nobs \<and> 0 < nobs then Some (sum_list obs / real nobs) else None)"

definition rolling_mean :: "nat \<Rightarrow> real option list \<Rightarrow> real option list" where
  "rolling_mean w xs = map (\<lambda>i. calc_mean w (window_at w xs i)) [0..<length xs]"

subsection \<open>\<^verbatim>\<open>(df['close'] > df['rolling_mean']).astype(int)\<close>\<close>

text \<open>A comparison with NaN on either side is false.\<close>

fun float_gt :: "real option \<Rightarrow> real option \<Rightarrow> bool" where
  "float_gt (Some x) (Some y) = (y < x)"
| "float_gt _ _ = False"

definition signal_col :: "real option list \<Rightarrow> real option list \<Rightarrow> int list" where
  "signal_col closes means = map2 (\<lambda>c m. if float_gt c m then 1 else 0) closes means"

text \<open>The two columns that lines 81 and 86 add to the frame, as functions of the window
  and the \<^verbatim>\<open>close\<close> column.\<close>

definition signal :: "nat \<Rightarrow> real option list \<Rightarrow> int list" where
  "signal w closes = signal_col closes (rolling_mean w closes)"

subsection \<open>\<^verbatim>\<open>df['signal'][window-1:]\<close>, \<^verbatim>\<open>.mean()\<close> and \<^verbatim>\<open>round(_, 4)\<close>\<close>

text \<open>A positional slice \<^verbatim>\<open>xs[k:]\<close>: a negative start counts from the end, and
  either start is clipped to the series.\<close>

definition py_slice_from :: "int \<Rightarrow> 'a list \<Rightarrow> 'a list" where
  "py_slice_from k xs =
     (let n = int (length xs);
          start = (if k < 0 then max 0 (n + k) else min k n)
      in drop (nat start) xs)"

text \<open>The mean of an integer series is NaN when the series is empty.\<close>

definition series_mean :: "int list \<Rightarrow> real option" where
  "series_mean xs = (if xs = [] then None else Some (real_of_int (sum_list xs) / real (length xs)))"

text \<open>
  \<^verbatim>\<open>round(x, 4)\<close> rounds to the nearest multiple of \<open>1/10000\<close>, a tie going to the even
  multiple; NaN stays NaN.
\<close>

definition round_half_even :: "real \<Rightarrow> int" where
  "round_half_even x =
     (let f = \<lfloor>x\<rfloor>; d = x - of_int f
      in if d < 1/2 then f else if 1/2 < d then f + 1 else if even f then f else f + 1)"

fun round4 :: "real option \<Rightarrow> real option" where
  "round4 None = None"
| "round4 (Some x) = Some (of_int (round_half_even (x * 10000)) / 10000)"

text \<open>Line 91: the slice of the signal column. The reported value, further down, is a
  function of the window and the \<^verbatim>\<open>close\<close> column.\<close>

definition valid_signals :: "int \<Rightarrow> int list \<Rightarrow> int list" where
  "valid_signals window sig = py_slice_from (window - 1) sig"

text \<open>Line 99 as a function of the window and the signal column of the frame.\<close>

definition aggregate_value :: "int \<Rightarrow> int list \<Rightarrow> real option" where
  "aggregate_value window sig = round4 (series_mean (valid_signals window sig))"

definition signal_rate :: "int \<Rightarrow> real option list \<Rightarrow> real option" where
  "signal_rate window closes = aggregate_value window (signal (nat window) closes)"

section \<open>The run\<close>

text \<open>
  The report dictionary. The fields \<^verbatim>\<open>metric\<close> and \<^verbatim>\<open>status\<close> are constants of each
  variant: \<^verbatim>\<open>"signal_rate"\<close> and \<^verbatim>\<open>"success"\<close> in the first, \<^verbatim>\<open>"error"\<close> in the second.
  \<open>Success version rows_processed value latency_ms seed\<close> and
  \<open>Error version error_message\<close>.
\<close>

datatype report =
    Success yaml nat "real option" int yaml
  | Error yaml string

text \<open>
  \<^verbatim>\<open>write_metrics\<close> returns the report once it is in the output file and on standard
  output. The encoder raises on a value it cannot encode; the file then holds no complete
  report.
\<close>

fun write_metrics :: "report \<Rightarrow> py_error + report" where
  "write_metrics (Success ver n v lat sd) =
     (if json_ok ver \<and> json_ok sd then Inr (Success ver n v lat sd)
      else Inl (TypeError ''Object of type date is not JSON serializable''))"
| "write_metrics (Error ver msg) =
     (if json_ok ver then Inr (Error ver msg)
      else Inl (TypeError ''Object of type date is not JSON serializable''))"

text \<open>
  What the run reads from outside: the two paths of the command line, the configuration
  file (absent, or the exception of \<^verbatim>\<open>yaml.safe_load\<close>, or the parsed document), the lines
  of the input file as the file iterator yields them (absent when the path does not
  exist), and the clock reading of line 93.
\<close>

record world =
  config_path :: string
  input_path :: string
  config_file :: "(py_error + yaml) option"
  input_file :: "string list option"
  elapsed_ms :: int

text \<open>
  The library calls whose results the source consumes without the library being part of
  the repository: \<^verbatim>\<open>pd.read_csv\<close> on the repaired text, \<^verbatim>\<open>np.random.seed\<close> (the exception
  it raises on a seed it refuses, if any) and the exception of \<^verbatim>\<open>Rolling.mean\<close> on a
  column that is not numeric.
\<close>

record pylib =
  read_csv :: "string \<Rightarrow> py_error + dataframe"
  random_seed :: "yaml \<Rightarrow> py_error option"
  aggregate_object :: py_error

text \<open>Lines 53 to 55: the loop over the required keys.\<close>

fun validate_keys :: "yaml \<Rightarrow> string list \<Rightarrow> py_error + unit" where
  "validate_keys config [] = Inr ()"
| "validate_keys config (key # keys) =
     (case py_contains config key of
        Inl e \<Rightarrow> Inl e
      | Inr present \<Rightarrow>
          if \<not> present then Inl (ValueError (''Missing required config field: '' @ key))
          else validate_keys config keys)"

definition required_keys :: "string list" where
  "required_keys = [''seed'', ''window'', ''version'']"

text \<open>
  Lines 46 to 55. The first component is the binding of the variable \<^verbatim>\<open>config\<close> when the
  stage ends or raises: the empty dictionary of line 42 until line 50 has assigned.
\<close>

definition load_config :: "world \<Rightarrow> yaml \<times> (py_error + unit)" where
  "load_config W =
     (case config_file W of
        None \<Rightarrow> (YMap [], Inl (FileNotFoundError (''Config file not found: '' @ config_path W)))
      | Some (Inl e) \<Rightarrow> (YMap [], Inl e)
      | Some (Inr config) \<Rightarrow> (config, validate_keys config required_keys))"

text \<open>Lines 63 to 74.\<close>

definition load_dataset :: "pylib \<Rightarrow> world \<Rightarrow> py_error + dataframe" where
  "load_dataset L W =
     (case input_file W of
        None \<Rightarrow> Inl (FileNotFoundError (''Input file not found: '' @ input_path W))
      | Some raw_f \<Rightarrow>
          (case read_csv L (cleaned raw_f) of
             Inl e \<Rightarrow> Inl e
           | Inr df \<Rightarrow>
               if df_empty df then Inl (ValueError ''Input CSV is empty'')
               else if map_of df ''close'' = None
               then Inl (ValueError (''Missing required column: '' @ [CHR 0x27] @ ''close'' @ [CHR 0x27]))
               else Inr df))"

text \<open>
  Lines 80 to 103. \<^verbatim>\<open>rolling\<close> accepts a window that is an integer (not a boolean) and
  not negative, and raises \<^verbatim>\<open>ValueError\<close> on any other; \<^verbatim>\<open>mean\<close> then raises on a column
  that is not numeric.
\<close>

definition window_error :: py_error where
  "window_error = ValueError ''window must be an integer 0 or greater''"

definition compute_metrics :: "pylib \<Rightarrow> yaml \<Rightarrow> dataframe \<Rightarrow> int \<Rightarrow> py_error + report" where
  "compute_metrics L config df lat =
     (case py_getitem config ''window'' of
        Inl e \<Rightarrow> Inl e
      | Inr (YInt window) \<Rightarrow>
          (case map_of df ''close'' of
             None \<Rightarrow> Inl (KeyError ''close'')
           | Some (Object _) \<Rightarrow> Inl (if window < 0 then window_error else aggregate_object L)
           | Some (Float64 closes) \<Rightarrow>
               if window < 0 then Inl window_error
               else
                 (case py_getitem config ''version'' of
                    Inl e \<Rightarrow> Inl e
                  | Inr ver \<Rightarrow>
                      (case py_getitem config ''seed'' of
                         Inl e \<Rightarrow> Inl e
                       | Inr sd \<Rightarrow>
                           Inr (Success ver (df_len df) (signal_rate window closes) lat sd))))
      | Inr _ \<Rightarrow>
          (case map_of df ''close'' of
             None \<Rightarrow> Inl (KeyError ''close'')
           | Some _ \<Rightarrow> Inl window_error))"

text \<open>The body of the \<^verbatim>\<open>try\<close> block, with the binding of \<^verbatim>\<open>config\<close> it leaves.\<close>

definition try_body :: "pylib \<Rightarrow> world \<Rightarrow> yaml \<times> (py_error + report)" where
  "try_body L W =
     (case load_config W of
        (config, Inl e) \<Rightarrow> (config, Inl e)
      | (config, Inr _) \<Rightarrow>
          (config,
           case py_getitem config ''seed'' of
             Inl e \<Rightarrow> Inl e
           | Inr sd \<Rightarrow>
               (case random_seed L sd of
                  Some e \<Rightarrow> Inl e
                | None \<Rightarrow>
                    (case load_dataset L W of
                       Inl e \<Rightarrow> Inl e
                     | Inr df \<Rightarrow>
                         (case compute_metrics L config df (elapsed_ms W) of
                            Inl e \<Rightarrow> Inl e
                          | Inr metrics \<Rightarrow> write_metrics metrics)))))"

text \<open>
  How the process ends: a report written and the exit status, or an exception that left
  the handler, with a traceback and no complete report.
\<close>

datatype outcome = Finished report nat | Crashed py_error

text \<open>Lines 109 to 120.\<close>

definition except_handler :: "yaml \<Rightarrow> py_error \<Rightarrow> outcome" where
  "except_handler config e =
     (case py_get config ''version'' (YStr ''unknown'') of
        Inl e' \<Rightarrow> Crashed e'
      | Inr ver \<Rightarrow>
          (case write_metrics (Error ver (str_of e)) of
             Inl e' \<Rightarrow> Crashed e'
           | Inr r \<Rightarrow> Finished r 1))"

definition main :: "pylib \<Rightarrow> world \<Rightarrow> outcome" where
  "main L W =
     (case try_body L W of
        (config, Inr r) \<Rightarrow> Finished r 0
      | (config, Inl e) \<Rightarrow> except_handler config e)"

section \<open>Reference notions of the specification\<close>


text \<open>
  The de-quoting as the specification words it: exactly one leading and exactly one
  trailing double-quote character are removed, each if present.
\<close>

definition spec_dequote :: "string \<Rightarrow> string" where
  "spec_dequote s =
     (let s1 = (case s of [] \<Rightarrow> [] | c # cs \<Rightarrow> if c = dquote then cs else s)
      in if s1 \<noteq> [] \<and> last s1 = dquote then butlast s1 else s1)"

definition spec_repair_line :: "string \<Rightarrow> string" where
  "spec_repair_line line = spec_dequote (strip_chars isspace line)"

section \<open>A sample environment\<close>

text \<open>
  A concrete library and world for running the model: \<^verbatim>\<open>read_csv\<close> parses the one text
  \<open>text\<close> into the frame \<open>df\<close> and finds no columns in any other, \<^verbatim>\<open>np.random.seed\<close>
  accepts every seed; both files exist.
\<close>

definition sample_lib :: "string \<Rightarrow> dataframe \<Rightarrow> pylib" where
  "sample_lib text df =
     \<lparr>read_csv = (\<lambda>t. if t = text then Inr df
                          else Inl (PandasError ''No columns to parse from file'')),
      random_seed = (\<lambda>sd. None),
      aggregate_object = PandasError ''No numeric types to aggregate''\<rparr>"

definition sample_world :: "yaml \<Rightarrow> string list \<Rightarrow> world" where
  "sample_world config raw_f =
     \<lparr>config_path = ''config.yaml'', input_path = ''data.csv'',
      config_file = Some (Inr config), input_file = Some raw_f, elapsed_ms = 12\<rparr>"

section \<open>The rolling mean and the signal\<close>

lemma length_rolling_mean: "length (rolling_mean w xs) = length xs"
  by (simp add: rolling_mean_def)

lemma rolling_mean_nth:
  "i < length xs \<Longrightarrow> rolling_mean w xs ! i = calc_mean w (window_at w xs i)"
  by (simp add: rolling_mean_def)

lemma length_signal: "length (signal w xs) = length xs"
  by (simp add: signal_def signal_col_def length_rolling_mean)

lemma signal_nth:
  "i < length xs \<Longrightarrow>
   signal w xs ! i = (if float_gt (xs ! i) (rolling_mean w xs ! i) then 1 else 0)"
  by (simp add: signal_def signal_col_def length_rolling_mean)











section \<open>Stripping\<close>

lemma strip_chars_decomp:
  "\<exists>a b. s = a @ strip_chars P s @ b \<and> list_all P a \<and> list_all P b"
proof -
  define t where "t = dropWhile P s"
  have s: "s = takeWhile P s @ t" by (simp add: t_def)
  have "rev (dropWhile P (rev t)) @ rev (takeWhile P (rev t))
          = rev (takeWhile P (rev t) @ dropWhile P (rev t))"
    by (simp only: rev_append)
  also have "\<dots> = t" by (simp only: takeWhile_dropWhile_id rev_rev_ident)
  finally have t: "t = strip_chars P s @ rev (takeWhile P (rev t))"
    by (simp add: strip_chars_def t_def)
  have a: "list_all P (takeWhile P s)"
    by (simp add: list_all_iff) (meson set_takeWhileD)
  have b: "list_all P (rev (takeWhile P (rev t)))"
    by (simp add: list_all_iff) (meson set_takeWhileD)
  from s t have "s = takeWhile P s @ strip_chars P s @ rev (takeWhile P (rev t))" by simp
  with a b show ?thesis by blast
qed

lemma strip_chars_ends:
  assumes "strip_chars P s \<noteq> []"
  shows "\<not> P (hd (strip_chars P s)) \<and> \<not> P (last (strip_chars P s))"
proof -
  define t where "t = dropWhile P s"
  define u where "u = dropWhile P (rev t)"
  have su: "strip_chars P s = rev u" by (simp add: strip_chars_def t_def u_def)
  with assms have une: "u \<noteq> []" by simp
  then have "\<not> P (hd u)" unfolding u_def by (rule hd_dropWhile)
  then have l: "\<not> P (last (strip_chars P s))" using une by (simp add: su last_rev)
  from une have "rev t \<noteq> []" unfolding u_def by auto
  then have tne: "t \<noteq> []" by simp
  then have nh: "\<not> P (hd t)" unfolding t_def by (rule hd_dropWhile)
  have "rev u @ rev (takeWhile P (rev t)) = rev (takeWhile P (rev t) @ u)"
    by (simp only: rev_append)
  also have "\<dots> = t" by (simp only: u_def takeWhile_dropWhile_id rev_rev_ident)
  finally have "t = rev u @ rev (takeWhile P (rev t))" by simp
  then have "hd t = hd (rev u)" using une by (metis hd_append2 rev_is_Nil_conv)
  with nh have "\<not> P (hd (strip_chars P s))" by (simp add: su)
  with l show ?thesis by simp
qed

lemma strip_chars_id:
  "s = [] \<or> (\<not> P (hd s) \<and> \<not> P (last s)) \<Longrightarrow> strip_chars P s = s"
proof (cases s)
  case Nil
  then show ?thesis by (simp add: strip_chars_def)
next
  case (Cons c cs)
  assume "s = [] \<or> (\<not> P (hd s) \<and> \<not> P (last s))"
  with Cons have h: "\<not> P (hd s)" and l: "\<not> P (last s)" and ne: "s \<noteq> []" by simp_all
  from h ne have d: "dropWhile P s = s" by (cases s) simp_all
  from l ne have "\<not> P (hd (rev s))" by (simp add: hd_rev)
  with ne have "dropWhile P (rev s) = rev s" by (cases "rev s") simp_all
  with d show ?thesis by (simp add: strip_chars_def)
qed

lemma strip_chars_Cons: "P c \<Longrightarrow> strip_chars P (c # cs) = strip_chars P cs"
  by (simp add: strip_chars_def)

lemma strip_chars_snoc: "P c \<Longrightarrow> strip_chars P (s @ [c]) = strip_chars P s"
proof (cases "list_all P s")
  case True
  assume "P c"
  with True have "\<forall>x\<in>set (s @ [c]). P x" and "\<forall>x\<in>set s. P x"
    by (simp_all add: list_all_iff)
  then have "dropWhile P (s @ [c]) = []" and "dropWhile P s = []"
    by (simp_all only: dropWhile_eq_Nil_conv)
  then show ?thesis by (simp only: strip_chars_def)
next
  case False
  assume c: "P c"
  from False have "dropWhile P (s @ [c]) = dropWhile P s @ [c]"
    by (auto simp: list_all_iff dropWhile_append1)
  with c show ?thesis by (simp add: strip_chars_def)
qed

lemma strip_chars_spec_dequote:
  assumes "spec_dequote s = [] \<or> (hd (spec_dequote s) \<noteq> dquote \<and> last (spec_dequote s) \<noteq> dquote)"
  shows "strip_chars (\<lambda>c. c = dquote) s = spec_dequote s"
proof -
  let ?q = "\<lambda>c. c = dquote"
  define s1 where "s1 = (case s of [] \<Rightarrow> [] | c # cs \<Rightarrow> if c = dquote then cs else s)"
  define s2 where "s2 = (if s1 \<noteq> [] \<and> last s1 = dquote then butlast s1 else s1)"
  have sd: "spec_dequote s = s2" by (simp add: spec_dequote_def s1_def s2_def)
  have a: "strip_chars ?q s = strip_chars ?q s1"
    by (cases s) (auto simp: s1_def strip_chars_Cons)
  have b: "strip_chars ?q s1 = strip_chars ?q s2"
  proof (cases "s1 \<noteq> [] \<and> last s1 = dquote")
    case True
    then have "s1 = s2 @ [dquote]" by (simp add: s2_def) (metis append_butlast_last_id)
    then show ?thesis using strip_chars_snoc[of ?q dquote s2] by simp
  next
    case False
    then have "s2 = s1" unfolding s2_def by (simp only: if_False)
    then show ?thesis by simp
  qed
  have "strip_chars ?q s2 = s2" using assms unfolding sd by (intro strip_chars_id) simp
  with a b sd show ?thesis by simp
qed

lemma cleaned_Cons: "cleaned (line # raw_f) = repair_line line @ [CHR 0x0A] @ cleaned raw_f"
  by (simp add: cleaned_def)

text \<open>
  What the repair does on every line: it strips leading and trailing whitespace, and then
  the whole run of double-quote characters at each end. Where removing exactly one leading
  and one trailing quote already leaves no quote at either end, as on a wrapped row whose
  fields are not quoted, the repair is that removal.
\<close>

lemma repair_line_strips_runs:
  "(\<exists>a b. line = a @ strip_chars isspace line @ b \<and> list_all isspace a \<and> list_all isspace b)
   \<and> (\<exists>n m. strip_chars isspace line = replicate n dquote @ repair_line line @ replicate m dquote)
   \<and> (repair_line line \<noteq> [] \<longrightarrow>
        hd (repair_line line) \<noteq> dquote \<and> last (repair_line line) \<noteq> dquote)
   \<and> (spec_repair_line line = []
        \<or> (hd (spec_repair_line line) \<noteq> dquote \<and> last (spec_repair_line line) \<noteq> dquote)
       \<longrightarrow> repair_line line = spec_repair_line line)
   \<and> cleaned (line # raw_f) = repair_line line @ [CHR 0x0A] @ cleaned raw_f"
proof -
  let ?q = "\<lambda>c. c = dquote"
  let ?s = "strip_chars isspace line"
  have ws: "\<exists>a b. line = a @ ?s @ b \<and> list_all isspace a \<and> list_all isspace b"
    by (rule strip_chars_decomp)
  obtain a b where ab: "?s = a @ strip_chars ?q ?s @ b" "list_all ?q a" "list_all ?q b"
    using strip_chars_decomp[of ?s ?q] by blast
  have rep: "xs = replicate (length xs) dquote" if "list_all ?q xs" for xs
    using that by (induction xs) auto
  have "?s = replicate (length a) dquote @ repair_line line @ replicate (length b) dquote"
    using ab rep[of a] rep[of b] by (simp add: repair_line_def)
  then have qs: "\<exists>n m. ?s = replicate n dquote @ repair_line line @ replicate m dquote"
    by blast
  have ends: "repair_line line \<noteq> [] \<longrightarrow>
        hd (repair_line line) \<noteq> dquote \<and> last (repair_line line) \<noteq> dquote"
    using strip_chars_ends[of ?q ?s] by (simp add: repair_line_def)
  have agree: "spec_repair_line line = []
        \<or> (hd (spec_repair_line line) \<noteq> dquote \<and> last (spec_repair_line line) \<noteq> dquote)
       \<longrightarrow> repair_line line = spec_repair_line line"
    using strip_chars_spec_dequote[of ?s] by (simp add: repair_line_def spec_repair_line_def)
  from ws qs ends agree show ?thesis by (simp add: cleaned_Cons)
qed

lemma repair_line_wrapped_row:
  \<open>repair_line ''  "x,y"  '' = ''x,y'' \<and> spec_repair_line ''  "x,y"  '' = ''x,y''\<close>
  by (simp add: repair_line_def spec_repair_line_def spec_dequote_def strip_chars_def
      isspace_def dquote_def)

text \<open>
  C4 does not hold of the code. The claim: after the whitespace, exactly one leading and
  exactly one trailing double-quote character are stripped, so that a quoted field inside
  the line stays quoted. On a wrapped row whose first field is itself quoted, the row
  \<^verbatim>\<open>""a,b",1"\<close>, the code removes the wrapping quote and the opening quote of the field: what
  reaches the column parser is \<^verbatim>\<open>a,b",1\<close>, where the unwrapped row is \<^verbatim>\<open>"a,b",1\<close>.
\<close>

theorem quoted_edge_field_overstripped:
  \<open>repair_line ''""a,b",1"'' = ''a,b",1''
   \<and> spec_repair_line ''""a,b",1"'' = ''"a,b",1''
   \<and> repair_line ''""a,b",1"'' \<noteq> spec_repair_line ''""a,b",1"''
   \<and> cleaned [''""a,b",1"\<newline>''] = ''a,b",1\<newline>''\<close>
  by (simp add: repair_line_def spec_repair_line_def spec_dequote_def strip_chars_def
      isspace_def dquote_def cleaned_def)

section \<open>Configuration validation\<close>

lemma validate_keys_mapping:
  "validate_keys (YMap kvs) ks =
     (case filter (\<lambda>key. map_of kvs key = None) ks of
        [] \<Rightarrow> Inr ()
      | k # rest \<Rightarrow> Inl (ValueError (''Missing required config field: '' @ k)))"
  by (induction ks) auto




text \<open>
  C10. Validation looks at the presence of the keys seed, window and version only: for
  every mapping that has the three keys it succeeds whatever their values are, so that a
  window that is zero, negative or not an integer passes the configuration stage.
\<close>

theorem presence_only_validation:
  assumes "map_of kvs ''seed'' = Some sd"
      and "map_of kvs ''window'' = Some window"
      and "map_of kvs ''version'' = Some ver"
  shows "validate_keys (YMap kvs) required_keys = Inr ()
         \<and> (config_file W = Some (Inr (YMap kvs)) \<longrightarrow> load_config W = (YMap kvs, Inr ()))"
  using assms by (simp add: validate_keys_mapping required_keys_def load_config_def)

theorem presence_only_validation_witness:
  "map_of [(''seed'', YStr ''x''), (''window'', YInt (- 3)), (''version'', YNull)] ''window''
     = Some (YInt (- 3))
   \<and> validate_keys (YMap [(''seed'', YStr ''x''), (''window'', YInt (- 3)), (''version'', YNull)])
         required_keys = Inr ()
   \<and> load_config (sample_world
         (YMap [(''seed'', YStr ''x''), (''window'', YInt (- 3)), (''version'', YNull)]) [])
       = (YMap [(''seed'', YStr ''x''), (''window'', YInt (- 3)), (''version'', YNull)], Inr ())"
  using presence_only_validation[where
      kvs = "[(''seed'', YStr ''x''), (''window'', YInt (- 3)), (''version'', YNull)]"
      and sd = "YStr ''x''" and window = "YInt (- 3)" and ver = YNull
      and W = "sample_world
         (YMap [(''seed'', YStr ''x''), (''window'', YInt (- 3)), (''version'', YNull)]) []"]
  by (simp add: sample_world_def)

section \<open>The window of one row\<close>

lemma calc_mean_single: "calc_mean (Suc 0) [x] = x"
  by (cases x) (simp_all add: calc_mean_def List.map_filter_simps)

lemma window_at_one: "i < length xs \<Longrightarrow> window_at (Suc 0) xs i = [xs ! i]"
  by (simp add: window_at_def take_Suc_conv_app_nth Cons_nth_drop_Suc[symmetric])

lemma rolling_mean_one: "rolling_mean (Suc 0) xs = xs"
  by (intro nth_equalityI) (simp_all add: length_rolling_mean rolling_mean_nth window_at_one calc_mean_single)

lemma float_gt_irrefl: "\<not> float_gt x x"
  by (cases x) simp_all

lemma signal_one: "signal (Suc 0) xs = replicate (length xs) 0"
  by (intro nth_equalityI) (simp_all add: length_signal signal_nth rolling_mean_one float_gt_irrefl)

text \<open>
  C9. For every dataset that is not empty and window 1, the warm-up is empty (the slice is
  the whole signal column), the rolling mean is the close column itself, every signal is 0
  and the reported value is 0.
\<close>

theorem window_one_all_zero:
  assumes "xs \<noteq> []"
  shows "valid_signals 1 (signal 1 xs) = signal 1 xs
         \<and> rolling_mean 1 xs = xs
         \<and> signal 1 xs = replicate (length xs) 0
         \<and> signal_rate 1 xs = Some 0"
proof -
  have v: "valid_signals 1 s = s" for s
    by (simp add: valid_signals_def py_slice_from_def)
  have "series_mean (replicate (length xs) 0) = Some 0"
    using assms by (simp add: series_mean_def sum_list_replicate)
  then have "signal_rate 1 xs = Some 0"
    by (simp add: signal_rate_def aggregate_value_def v signal_one round_half_even_def)
  with v show ?thesis by (simp add: rolling_mean_one signal_one)
qed

theorem window_one_all_zero_witness:
  "[Some 3, None, Some (5::real)] \<noteq> []
   \<and> rolling_mean 1 [Some 3, None, Some 5] = [Some 3, None, Some 5]
   \<and> signal 1 [Some 3, None, Some 5] = [0, 0, 0]
   \<and> signal_rate 1 [Some 3, None, Some 5] = Some 0"
  using window_one_all_zero[of "[Some 3, None, Some 5]"]
  by (simp add: numeral_3_eq_3)

section \<open>The reported value\<close>

lemma signal_bits: "set (signal w xs) \<subseteq> {0, 1}"
  by (auto simp: signal_def signal_col_def split: if_splits)

lemma py_slice_from_subset: "set (py_slice_from k xs) \<subseteq> set xs"
  by (auto simp: py_slice_from_def Let_def dest: in_set_dropD)

lemma sum_list_bits:
  "set xs \<subseteq> {0, 1::int} \<Longrightarrow> 0 \<le> sum_list xs \<and> sum_list xs \<le> int (length xs)"
  by (induction xs) auto

lemma series_mean_unit:
  assumes "xs \<noteq> []" and "set xs \<subseteq> {0, 1}"
  shows "\<exists>r. series_mean xs = Some r \<and> 0 \<le> r \<and> r \<le> 1"
proof -
  have b: "0 \<le> sum_list xs" "sum_list xs \<le> int (length xs)"
    using sum_list_bits[OF assms(2)] by simp_all
  from assms(1) have pos: "0 < real (length xs)" by simp
  from b(2) have "real_of_int (sum_list xs) \<le> real (length xs)" by linarith
  with pos have "real_of_int (sum_list xs) / real (length xs) \<le> 1" by simp
  moreover from b(1) have "0 \<le> real_of_int (sum_list xs) / real (length xs)" by simp
  ultimately show ?thesis using assms(1) by (simp add: series_mean_def)
qed

lemma round_half_even_bounds:
  assumes "of_int a \<le> x" and "x \<le> of_int b"
  shows "a \<le> round_half_even x \<and> round_half_even x \<le> b"
proof -
  have lo: "a \<le> \<lfloor>x\<rfloor>" using assms(1) by (simp add: le_floor_iff)
  have hi: "\<lfloor>x\<rfloor> \<le> b" using floor_mono[OF assms(2)] by simp
  have up: "\<lfloor>x\<rfloor> + 1 \<le> b" if "1/2 \<le> x - of_int \<lfloor>x\<rfloor>"
  proof -
    from that assms(2) have "of_int \<lfloor>x\<rfloor> < (of_int b :: real)" by linarith
    then show ?thesis by simp
  qed
  show ?thesis using lo hi up by (auto simp: round_half_even_def Let_def)
qed

lemma round4_unit:
  assumes "0 \<le> r" and "r \<le> 1"
  shows "\<exists>q. round4 (Some r) = Some q \<and> 0 \<le> q \<and> q \<le> 1"
proof -
  define k where "k = round_half_even (r * 10000)"
  have "of_int 0 \<le> r * 10000" and "r * 10000 \<le> of_int 10000" using assms by simp_all
  then have "0 \<le> k \<and> k \<le> 10000"
    unfolding k_def by (rule round_half_even_bounds)
  then have "0 \<le> real_of_int k / 10000" and "real_of_int k / 10000 \<le> 1" by simp_all
  moreover have "round4 (Some r) = Some (real_of_int k / 10000)" by (simp add: k_def)
  ultimately show ?thesis by blast
qed

lemma signal_rate_unit:
  assumes "valid_signals w (signal (nat w) closes) \<noteq> []"
  shows "\<exists>r. signal_rate w closes = Some r \<and> 0 \<le> r \<and> r \<le> 1"
proof -
  have sub: "set (valid_signals w (signal (nat w) closes)) \<subseteq> {0, 1}"
    unfolding valid_signals_def by (rule subset_trans[OF py_slice_from_subset signal_bits])
  from series_mean_unit[OF assms sub] obtain m where
    m: "series_mean (valid_signals w (signal (nat w) closes)) = Some m" "0 \<le> m" "m \<le> 1"
    by blast
  from round4_unit[OF m(2) m(3)] show ?thesis by (simp only: signal_rate_def aggregate_value_def m(1))
qed

lemma except_handler_not_success: "except_handler config e \<noteq> Finished (Success ver n v lat sd) c"
  by (simp add: except_handler_def split: sum.splits if_splits)

lemma write_metrics_same: "write_metrics m = Inr r \<Longrightarrow> r = m"
  by (cases m) (simp_all split: if_splits)

lemma compute_metrics_success:
  assumes "compute_metrics L config df lat = Inr m"
      and "py_getitem config ''window'' = Inr (YInt w)"
      and "map_of df ''close'' = Some (Float64 closes)"
  shows "\<exists>ver sd. m = Success ver (df_len df) (signal_rate w closes) lat sd \<and> 0 \<le> w"
  using assms by (auto simp: compute_metrics_def split: sum.splits if_splits)

lemma try_body_success:
  assumes "try_body L W = (cfg, Inr r)"
      and "config_file W = Some (Inr config)"
      and "input_file W = Some raw_f"
      and "read_csv L (cleaned raw_f) = Inr df"
  shows "\<exists>m. compute_metrics L config df (elapsed_ms W) = Inr m \<and> write_metrics m = Inr r"
  using assms
  by (simp add: try_body_def load_config_def load_dataset_def
      split: sum.splits option.splits if_splits)

lemma main_success:
  assumes "main L W = Finished (Success ver n v lat sd) c"
  shows "\<exists>cfg. try_body L W = (cfg, Inr (Success ver n v lat sd)) \<and> c = 0"
proof (cases "try_body L W")
  case (Pair cfg res)
  show ?thesis
  proof (cases res)
    case (Inl e)
    with Pair assms show ?thesis by (simp add: main_def except_handler_not_success)
  next
    case (Inr r)
    with Pair assms show ?thesis by (simp add: main_def)
  qed
qed

text \<open>
  C7. For every run that ends with a success report and whose slice of the signal column
  from position \<open>w - 1\<close> on is not empty, the reported value, the mean of that slice rounded
  to four decimals, lies in the closed interval from 0 to 1.
\<close>

theorem value_in_unit_interval:
  assumes "main L W = Finished (Success ver n v lat sd) c"
      and "config_file W = Some (Inr config)"
      and "py_getitem config ''window'' = Inr (YInt w)"
      and "input_file W = Some raw_f"
      and "read_csv L (cleaned raw_f) = Inr df"
      and "map_of df ''close'' = Some (Float64 closes)"
      and "valid_signals w (signal (nat w) closes) \<noteq> []"
  shows "\<exists>r. v = Some r \<and> 0 \<le> r \<and> r \<le> 1"
proof -
  from main_success[OF assms(1)] obtain cfg where
    tb: "try_body L W = (cfg, Inr (Success ver n v lat sd))" by blast
  from try_body_success[OF tb assms(2,4,5)] obtain m where
    m: "compute_metrics L config df (elapsed_ms W) = Inr m"
       "write_metrics m = Inr (Success ver n v lat sd)" by blast
  from write_metrics_same[OF m(2)] have "m = Success ver n v lat sd" by simp
  with compute_metrics_success[OF m(1) assms(3,6)] have "v = signal_rate w closes" by simp
  with signal_rate_unit[OF assms(7)] show ?thesis by simp
qed

theorem value_in_unit_interval_witness:
  \<open>main (sample_lib ''close\<newline>1\<newline>2\<newline>3\<newline>2\<newline>5\<newline>''
            [(''close'', Float64 [Some 1, Some 2, Some 3, Some 2, Some 5])])
        (sample_world (YMap [(''seed'', YInt 42), (''window'', YInt 3), (''version'', YStr ''v1'')])
           [''"close"\<newline>'', ''"1"\<newline>'', ''"2"\<newline>'', ''"3"\<newline>'', ''"2"\<newline>'', ''"5"\<newline>''])
     = Finished (Success (YStr ''v1'') 5 (Some (6667 / 10000)) 12 (YInt 42)) 0
   \<and> valid_signals 3 (signal (nat 3) [Some 1, Some 2, Some 3, Some 2, Some 5]) = [1, 0, 1]
   \<and> (0::real) \<le> 6667 / 10000 \<and> (6667 / 10000 :: real) \<le> 1\<close>
  using value_in_unit_interval[where
      L = \<open>sample_lib ''close\<newline>1\<newline>2\<newline>3\<newline>2\<newline>5\<newline>''
            [(''close'', Float64 [Some 1, Some 2, Some 3, Some 2, Some 5])]\<close>
      and W = \<open>sample_world (YMap [(''seed'', YInt 42), (''window'', YInt 3), (''version'', YStr ''v1'')])
           [''"close"\<newline>'', ''"1"\<newline>'', ''"2"\<newline>'', ''"3"\<newline>'', ''"2"\<newline>'', ''"5"\<newline>'']\<close>
      and ver = "YStr ''v1''" and n = 5 and v = "Some (6667 / 10000)" and lat = 12
      and sd = "YInt 42" and c = 0
      and config = "YMap [(''seed'', YInt 42), (''window'', YInt 3), (''version'', YStr ''v1'')]"
      and w = 3
      and raw_f = \<open>[''"close"\<newline>'', ''"1"\<newline>'', ''"2"\<newline>'', ''"3"\<newline>'', ''"2"\<newline>'', ''"5"\<newline>'']\<close>
      and df = "[(''close'', Float64 [Some 1, Some 2, Some 3, Some 2, Some 5])]"
      and closes = "[Some 1, Some 2, Some 3, Some 2, Some 5]"]
  by (simp add: main_def try_body_def load_config_def required_keys_def load_dataset_def
      compute_metrics_def sample_lib_def sample_world_def cleaned_def repair_line_def
      strip_chars_def isspace_def dquote_def df_empty_def
      signal_rate_def aggregate_value_def valid_signals_def py_slice_from_def signal_def signal_col_def
      rolling_mean_def window_at_def calc_mean_def List.map_filter_simps series_mean_def
      round_half_even_def upt_rec)

section \<open>The empty slice\<close>

lemma valid_signals_short:
  assumes "int (length sig) < w"
  shows "valid_signals w sig = []"
  using assms by (simp add: valid_signals_def py_slice_from_def Let_def)

lemma signal_rate_short:
  assumes "int (length closes) < w"
  shows "signal_rate w closes = None"
  using assms by (simp add: signal_rate_def aggregate_value_def valid_signals_short length_signal series_mean_def)

text \<open>
  C2, as the code has it. For every configuration and dataset where the window exceeds the
  number of rows, the slice of the signal column from position \<open>w - 1\<close> on is empty, its
  mean is NaN and no exception is raised: the run (seed accepted, frame loaded, version
  and seed encodable) ends with exit status 0 and a success report whose value is NaN.
\<close>

theorem empty_slice_reports_nan:
  assumes "config_file W = Some (Inr (YMap kvs))"
      and "map_of kvs ''seed'' = Some sd"
      and "map_of kvs ''window'' = Some (YInt w)"
      and "map_of kvs ''version'' = Some ver"
      and "random_seed L sd = None"
      and "input_file W = Some raw_f"
      and "read_csv L (cleaned raw_f) = Inr df"
      and "\<not> df_empty df"
      and "map_of df ''close'' = Some (Float64 closes)"
      and "int (length closes) < w"
      and "json_ok ver" and "json_ok sd"
  shows "valid_signals w (signal (nat w) closes) = []
         \<and> signal_rate w closes = None
         \<and> main L W = Finished (Success ver (df_len df) None (elapsed_ms W) sd) 0"
proof -
  have v: "valid_signals w (signal (nat w) closes) = []"
    using assms(10) by (simp add: valid_signals_short length_signal)
  have r: "signal_rate w closes = None" using assms(10) by (rule signal_rate_short)
  have lc: "load_config W = (YMap kvs, Inr ())"
    using assms(1-4) by (simp add: load_config_def validate_keys_mapping required_keys_def)
  have ld: "load_dataset L W = Inr df"
    using assms(6-9) by (simp add: load_dataset_def)
  from assms(10) have w0: "\<not> w < 0" by linarith
  have cm: "compute_metrics L (YMap kvs) df (elapsed_ms W)
              = Inr (Success ver (df_len df) None (elapsed_ms W) sd)"
    using assms(2-4,9) w0 r by (simp add: compute_metrics_def)
  have "try_body L W = (YMap kvs, Inr (Success ver (df_len df) None (elapsed_ms W) sd))"
    using lc ld cm assms(2,5,11,12) by (simp add: try_body_def)
  then have "main L W = Finished (Success ver (df_len df) None (elapsed_ms W) sd) 0"
    by (simp add: main_def)
  with v r show ?thesis by simp
qed

theorem empty_slice_reports_nan_witness:
  \<open>cleaned [''"close"\<newline>'', ''"1"\<newline>'', ''"2"\<newline>''] = ''close\<newline>1\<newline>2\<newline>''
   \<and> int (length [Some 1, Some (2::real)]) < 3
   \<and> valid_signals 3 (signal (nat 3) [Some 1, Some 2]) = []
   \<and> signal_rate 3 [Some 1, Some 2] = None
   \<and> main (sample_lib ''close\<newline>1\<newline>2\<newline>'' [(''close'', Float64 [Some 1, Some 2])])
        (sample_world (YMap [(''seed'', YInt 42), (''window'', YInt 3), (''version'', YStr ''v1'')])
           [''"close"\<newline>'', ''"1"\<newline>'', ''"2"\<newline>''])
     = Finished (Success (YStr ''v1'') 2 None 12 (YInt 42)) 0\<close>
  using empty_slice_reports_nan[where
      W = \<open>sample_world (YMap [(''seed'', YInt 42), (''window'', YInt 3), (''version'', YStr ''v1'')])
           [''"close"\<newline>'', ''"1"\<newline>'', ''"2"\<newline>'']\<close>
      and kvs = "[(''seed'', YInt 42), (''window'', YInt 3), (''version'', YStr ''v1'')]"
      and sd = "YInt 42" and w = 3 and ver = "YStr ''v1''"
      and L = \<open>sample_lib ''close\<newline>1\<newline>2\<newline>'' [(''close'', Float64 [Some 1, Some 2])]\<close>
      and raw_f = \<open>[''"close"\<newline>'', ''"1"\<newline>'', ''"2"\<newline>'']\<close>
      and df = "[(''close'', Float64 [Some 1, Some 2])]" and closes = "[Some 1, Some 2]"]
  by (simp add: sample_lib_def sample_world_def cleaned_def repair_line_def
      strip_chars_def isspace_def dquote_def df_empty_def)

text \<open>
  C2 as stated fails on two rows under window 3: the run does not fail, it writes a success
  report with a NaN value and exits with status 0.
\<close>

theorem empty_slice_counterexample:
  \<open>main (sample_lib ''close\<newline>1\<newline>2\<newline>'' [(''close'', Float64 [Some 1, Some 2])])
        (sample_world (YMap [(''seed'', YInt 42), (''window'', YInt 3), (''version'', YStr ''v1'')])
           [''"close"\<newline>'', ''"1"\<newline>'', ''"2"\<newline>''])
     = Finished (Success (YStr ''v1'') 2 None 12 (YInt 42)) 0\<close>
  by (simp add: main_def try_body_def load_config_def required_keys_def load_dataset_def
      compute_metrics_def sample_lib_def sample_world_def cleaned_def repair_line_def
      strip_chars_def isspace_def dquote_def df_empty_def signal_rate_short)

section \<open>The warm-up rows\<close>

lemma valid_signals_cong:
  assumes "1 \<le> w" and "length s1 = length s2"
      and "\<forall>i. nat w - 1 \<le> i \<and> i < length s1 \<longrightarrow> s1 ! i = s2 ! i"
  shows "valid_signals w s1 = valid_signals w (s2 :: int list)"
proof (cases "w - 1 \<le> int (length s1)")
  case True
  from assms(1) have k: "nat (w - 1) = nat w - 1"
    by (simp add: nat_diff_distrib)
  have "drop (nat w - 1) s1 = drop (nat w - 1) s2"
    using assms(2,3) by (intro nth_equalityI) simp_all
  then have "drop (nat (w - 1)) s1 = drop (nat (w - 1)) s2" by (simp only: k)
  with assms(1,2) True show ?thesis
    by (simp add: valid_signals_def py_slice_from_def Let_def min_def)
next
  case False
  with assms(1,2) show ?thesis
    by (simp add: valid_signals_def py_slice_from_def Let_def min_def)
qed

lemma valid_signals_drop:
  assumes "1 \<le> w"
  shows "valid_signals w sig = drop (nat w - 1) sig"
proof (cases "w - 1 \<le> int (length sig)")
  case True
  from assms have "nat (w - 1) = nat w - 1" by (simp add: nat_diff_distrib)
  with assms True show ?thesis
    by (simp add: valid_signals_def py_slice_from_def Let_def min_def)
next
  case False
  then have "length sig \<le> nat w - 1" by linarith
  with assms False show ?thesis
    by (simp add: valid_signals_def py_slice_from_def Let_def min_def)
qed

text \<open>
  C3, as the code has it. For every window \<open>w \<ge> 1\<close>, the first \<open>w - 1\<close> signal values never
  contribute to the reported value. The value is the aggregate of line 99 applied to the
  signal column; that aggregate is the rounded mean of the column from position \<open>w - 1\<close>
  on, and it gives the same result on any two signal columns of the same length that agree
  from position \<open>w - 1\<close> on, whatever stands in their first \<open>w - 1\<close> positions. The close
  values of the warm-up rows do reach the value, through the rolling means of the rows
  from \<open>w - 1\<close> on whose windows contain them.
\<close>

theorem warmup_signals_excluded:
  assumes "1 \<le> w" and "length s1 = length s2"
      and "\<forall>i. nat w - 1 \<le> i \<and> i < length s1 \<longrightarrow> s1 ! i = s2 ! i"
  shows "aggregate_value w s1 = aggregate_value w s2
         \<and> aggregate_value w s1 = round4 (series_mean (drop (nat w - 1) s1))
         \<and> signal_rate w closes = aggregate_value w (signal (nat w) closes)"
proof -
  have "valid_signals w s1 = valid_signals w s2"
    using assms by (rule valid_signals_cong)
  then have eq: "aggregate_value w s1 = aggregate_value w s2"
    by (simp only: aggregate_value_def)
  have dr: "aggregate_value w s1 = round4 (series_mean (drop (nat w - 1) s1))"
    using assms(1) by (simp only: aggregate_value_def valid_signals_drop)
  have "signal_rate w closes = aggregate_value w (signal (nat w) closes)"
    by (simp only: signal_rate_def)
  with eq dr show ?thesis by (intro conjI)
qed

theorem warmup_signals_excluded_witness:
  "(1::int) \<le> 2 \<and> length [1, 1, 0::int] = length [0, 1, 0::int]
   \<and> [1, 1, 0::int] ! 0 \<noteq> [0, 1, 0] ! 0
   \<and> aggregate_value 2 [1, 1, 0] = aggregate_value 2 [0, 1, 0]
   \<and> aggregate_value 2 [1, 1, 0] = Some (1 / 2)
   \<and> round4 (series_mean [1, 1, 0]) \<noteq> round4 (series_mean [0, 1, 0])"
proof -
  have agree: "\<forall>i. nat 2 - 1 \<le> i \<and> i < length [1, 1, 0::int]
                 \<longrightarrow> [1, 1, 0::int] ! i = [0, 1, 0] ! i"
    by (auto simp: nth_Cons split: nat.splits)
  have th: "aggregate_value 2 [1, 1, 0] = aggregate_value 2 [0, 1, 0]
        \<and> aggregate_value 2 [1, 1, 0] = round4 (series_mean (drop (nat 2 - 1) [1, 1, 0]))
        \<and> signal_rate 2 [] = aggregate_value 2 (signal (nat 2) [])"
    by (rule warmup_signals_excluded[OF _ _ agree]) simp_all
  note eq = th[THEN conjunct1] and dr = th[THEN conjunct2, THEN conjunct1]
  have v: "round4 (series_mean (drop (nat 2 - 1) [1, 1, 0])) = Some (1 / 2)"
    by (simp add: series_mean_def round_half_even_def)
  have u: "round4 (series_mean [1, 1, 0]) \<noteq> round4 (series_mean [0, 1, 0])"
    by (simp add: series_mean_def round_half_even_def)
  from dr v have "aggregate_value 2 [1, 1, 0] = Some (1 / 2)" by (simp only:)
  with eq u show ?thesis by simp
qed

text \<open>
  C3 as stated fails under window 2 on two datasets that differ in the close of the one
  warm-up row only: the reported values are 1 and 1/2.
\<close>

theorem warmup_close_counterexample:
  "take 1 [Some 1, Some 2, Some (3::real)] \<noteq> take 1 [Some 10, Some 2, Some 3]
   \<and> drop 1 [Some 1, Some 2, Some (3::real)] = drop 1 [Some 10, Some 2, Some 3]
   \<and> signal_rate 2 [Some 1, Some 2, Some 3] = Some 1
   \<and> signal_rate 2 [Some 10, Some 2, Some 3] = Some (1 / 2)
   \<and> signal_rate 2 [Some 1, Some 2, Some 3] \<noteq> signal_rate 2 [Some 10, Some 2, Some 3]"
  by (simp add: signal_rate_def aggregate_value_def valid_signals_def py_slice_from_def signal_def signal_col_def
      rolling_mean_def window_at_def calc_mean_def List.map_filter_simps series_mean_def
      round_half_even_def upt_rec)

section \<open>The worked example\<close>

text \<open>
  C6, as the code has it. For the close values 1, 2, 3, 4, 5 and window 3, the rolling
  means at the positions 2, 3, 4 are 2, 3, 4, the signals there are 1, 1, 1 (each close
  exceeds its mean by one), and the reported value is the rounded mean of the signals over
  these positions, which is 1.
\<close>

theorem example_one_to_five:
  "map (\<lambda>i. rolling_mean 3 [Some 1, Some 2, Some 3, Some 4, Some 5] ! i) [2, 3, 4]
     = [Some 2, Some 3, Some 4]
   \<and> map (\<lambda>i. signal 3 [Some 1, Some 2, Some 3, Some 4, Some 5] ! i) [2, 3, 4] = [1, 1, 1]
   \<and> valid_signals 3 (signal 3 [Some 1, Some 2, Some 3, Some 4, Some 5]) = [1, 1, 1]
   \<and> signal_rate 3 [Some 1, Some 2, Some 3, Some 4, Some 5] = round4 (series_mean [1, 1, 1])
   \<and> signal_rate 3 [Some 1, Some 2, Some 3, Some 4, Some 5] = Some 1"
  by (simp add: signal_rate_def aggregate_value_def valid_signals_def py_slice_from_def signal_def signal_col_def
      rolling_mean_def window_at_def calc_mean_def List.map_filter_simps series_mean_def
      round_half_even_def upt_rec)

text \<open>C6 as stated fails: the signals at the positions 2, 3, 4 are not 0, 1, 1.\<close>

theorem example_signals_counterexample:
  "map (\<lambda>i. signal 3 [Some 1, Some 2, Some 3, Some 4, Some 5] ! i) [2, 3, 4] \<noteq> [0, 1, 1]"
  by (simp add: signal_def signal_col_def
      rolling_mean_def window_at_def calc_mean_def List.map_filter_simps upt_rec)

section \<open>Runs that leave the handler\<close>

text \<open>
  C8 does not hold of the code. A configuration file whose document is empty loads as
  \<^verbatim>\<open>None\<close>; the membership test of line 54 raises, and the handler calls \<^verbatim>\<open>config.get\<close> on
  a value that has no such method: the exception leaves the handler and no report is
  written.
\<close>

theorem null_config_crashes:
  "main L (W\<lparr>config_file := Some (Inr YNull)\<rparr>)
     = Crashed (AttributeError ([CHR 0x27] @ ''NoneType'' @ [CHR 0x27]
                 @ '' object has no attribute '' @ [CHR 0x27] @ ''get'' @ [CHR 0x27]))"
  by (simp add: main_def try_body_def load_config_def required_keys_def except_handler_def)

text \<open>The same happens for a document that is a sequence, and, in the encoder, for a
  mapping whose version is a date.\<close>

lemma sequence_config_crashes:
  "\<exists>e. main L (W\<lparr>config_file := Some (Inr (YSeq ys))\<rparr>) = Crashed e"
  by (auto simp: main_def try_body_def load_config_def required_keys_def except_handler_def
      split: sum.splits option.splits prod.splits)

lemma date_version_crashes:
  "\<exists>e. main L (W\<lparr>config_file := Some (Inr (YMap [(''version'', YDate y m d)]))\<rparr>) = Crashed e"
  by (simp add: main_def try_body_def load_config_def required_keys_def except_handler_def)

end
